theory Spec2Isabelle
  imports Main
begin

section \<open>The Debug view of the status page (views/Status/components/Debug/Debug.js)\<close>

text \<open>
  The component is a React class with three rendering methods (\<open>render\<close>,
  \<open>renderLogs\<close>, \<open>renderActions\<close>) and two click handlers (\<open>clear\<close>, \<open>toggle\<close>).
  It reads \<open>this.props\<close> and calls the two functions found in \<open>this.props.actions\<close>.
  The embedding keeps JavaScript's dynamic typing where the code depends on it
  (truthiness in \<open>||\<close>, \<open>? :\<close> and \<open>!\<close>, the method call \<open>.map\<close>, calling a
  property), so that the declared \<open>propTypes\<close> are a predicate on the input and not a
  restriction built into its type.
\<close>

subsection \<open>JavaScript values\<close>

text \<open>
  The values a property of \<open>statusDebug\<close> or \<open>actions\<close> can hold: the primitives, arrays
  and functions. Numbers are kept as far as truthiness tells them apart (an integer
  or \<open>NaN\<close>); a function is an opaque reference. Plain objects are not part of this
  universe. Arrays are dense (a list), strings are lists of characters.
\<close>

datatype jsval =
    JUndefined
  | JNull
  | JBool bool
  | JNum int
  | JNaN
  | JStr string
  | JArr "jsval list"
  | JFun nat

datatype error = TypeError

text \<open>ToBoolean: \<open>undefined\<close>, \<open>null\<close>, \<open>false\<close>, \<open>0\<close>, \<open>NaN\<close> and \<open>""\<close> are falsy.\<close>

fun truthy :: "jsval \<Rightarrow> bool" where
  "truthy JUndefined = False"
| "truthy JNull = False"
| "truthy (JBool b) = b"
| "truthy (JNum n) = (n \<noteq> 0)"
| "truthy JNaN = False"
| "truthy (JStr s) = (s \<noteq> [])"
| "truthy (JArr xs) = True"
| "truthy (JFun f) = True"

text \<open>\<open>a || b\<close> is \<open>a\<close> when \<open>a\<close> is truthy and \<open>b\<close> otherwise; \<open>!a\<close> is a boolean.\<close>

definition js_or :: "jsval \<Rightarrow> jsval \<Rightarrow> jsval" where
  "js_or a b = (if truthy a then a else b)"

definition js_not :: "jsval \<Rightarrow> jsval" where
  "js_not a = JBool (\<not> truthy a)"

text \<open>
  \<open>v.map((x, idx) => f x idx)\<close>: on an array the callback is applied to every element
  with its index, in order. On \<open>undefined\<close> and \<open>null\<close> reading \<open>.map\<close> throws, on every
  other value of the universe \<open>.map\<close> is \<open>undefined\<close> and calling it throws.
\<close>

fun array_map :: "(jsval \<Rightarrow> nat \<Rightarrow> 'a) \<Rightarrow> jsval \<Rightarrow> error + 'a list" where
  "array_map f (JArr xs) = Inr (map (\<lambda>(idx, x). f x idx) (enumerate 0 xs))"
| "array_map f JUndefined = Inl TypeError"
| "array_map f JNull = Inl TypeError"
| "array_map f (JBool b) = Inl TypeError"
| "array_map f (JNum n) = Inl TypeError"
| "array_map f JNaN = Inl TypeError"
| "array_map f (JStr s) = Inl TypeError"
| "array_map f (JFun g) = Inl TypeError"

subsection \<open>Props and propTypes\<close>

record ActionSet =
  removeDevLogs :: jsval
  updateDevLogging :: jsval

record DebugState =
  levels :: jsval
  logging :: jsval
  logs :: jsval

record props =
  actions :: ActionSet
  statusDebug :: DebugState

fun is_func :: "jsval \<Rightarrow> bool" where
  "is_func (JFun f) = True"
| "is_func _ = False"

fun is_string :: "jsval \<Rightarrow> bool" where
  "is_string (JStr s) = True"
| "is_string _ = False"

fun is_bool :: "jsval \<Rightarrow> bool" where
  "is_bool (JBool b) = True"
| "is_bool _ = False"

fun is_array_of :: "(jsval \<Rightarrow> bool) \<Rightarrow> jsval \<Rightarrow> bool" where
  "is_array_of P (JArr xs) = list_all P xs"
| "is_array_of P _ = False"

text \<open>
  A checker without \<open>isRequired\<close> lets \<open>null\<close> and \<open>undefined\<close> pass; the element
  checker \<open>PropTypes.string\<close> inside \<open>arrayOf\<close> is one.
\<close>

fun is_nullish :: "jsval \<Rightarrow> bool" where
  "is_nullish JUndefined = True"
| "is_nullish JNull = True"
| "is_nullish _ = False"

definition optional :: "(jsval \<Rightarrow> bool) \<Rightarrow> jsval \<Rightarrow> bool" where
  "optional P v \<longleftrightarrow> is_nullish v \<or> P v"

text \<open>
  The static \<open>propTypes\<close> of the class: the two functions, \<open>levels\<close>, \<open>logging\<close> and
  \<open>logs\<close> are \<open>isRequired\<close>, the entries of \<open>logs\<close> are not.
\<close>

definition propTypes :: "props \<Rightarrow> bool" where
  "propTypes p \<longleftrightarrow>
     is_func (removeDevLogs (actions p)) \<and>
     is_func (updateDevLogging (actions p)) \<and>
     is_string (levels (statusDebug p)) \<and>
     is_bool (logging (statusDebug p)) \<and>
     is_array_of (optional is_string) (logs (statusDebug p))"

subsection \<open>The component instance and the element tree\<close>

text \<open>
  An instance holds \<open>this.props\<close> and whatever else React keeps on it
  (\<open>this.state\<close>), of any type \<open>'s\<close>: the class declares no state of its own.
\<close>

record 's Debug =
  props :: props
  state :: 's

text \<open>
  Element types are the imported components and the host tags of the JSX. The values
  \<open>styles.subheader\<close>, \<open>styles.logs\<close>, \<open>styles.log\<close> and \<open>styles.actions\<close> come from
  Debug.css and are kept as names. An \<open>onClick\<close> holds one of the two bound
  instance methods.
\<close>

datatype tag = Container | ContainerTitle | AvPause | AvPlay | AvReplay | H2 | Div | Pre | A

datatype style = Styles_subheader | Styles_logs | Styles_log | Styles_actions

datatype handler = Toggle | Clear

datatype attr = Title string | ClassName style | Key nat | OnClick handler

text \<open>
  A node is an element with its attributes and children, or a JavaScript value
  placed in the tree by \<open>{ e }\<close>. JSX drops the whitespace and line breaks around such
  an expression, so the value is the whole child. An array child stands for its
  elements in order.
\<close>

datatype vnode = Elem tag "attr list" "vnode list" | Expr jsval

subsection \<open>Rendering\<close>

definition renderLogs :: "'s Debug \<Rightarrow> error + vnode list" where
  "renderLogs this =
     array_map (\<lambda>log idx. Elem Pre [ClassName Styles_log, Key idx] [Expr log])
       (logs (statusDebug (props this)))"

definition renderActions :: "'s Debug \<Rightarrow> vnode" where
  "renderActions this =
     (let toggleButton =
            (if truthy (logging (statusDebug (props this)))
             then Elem AvPause [] []
             else Elem AvPlay [] [])
      in Elem Div [ClassName Styles_actions]
           [Elem A [OnClick Toggle] [toggleButton],
            Elem A [OnClick Clear] [Elem AvReplay [] []]])"

text \<open>
  The children of the container are evaluated in source order: the actions, the
  subheader expression, then \<open>renderLogs\<close>, the only one that can throw.
\<close>

definition render :: "'s Debug \<Rightarrow> error + vnode" where
  "render this =
     (let acts = renderActions this;
          sub = js_or (levels (statusDebug (props this))) (JStr ''-'')
      in case renderLogs this of
           Inl e \<Rightarrow> Inl e
         | Inr ls \<Rightarrow>
             Inr (Elem Container []
                   [Elem ContainerTitle [Title ''Node Logs''] [],
                    acts,
                    Elem H2 [ClassName Styles_subheader] [Expr sub],
                    Elem Div [ClassName Styles_logs] ls]))"

subsection \<open>Handlers\<close>

text \<open>
  A handler's effect is what it leaves of the instance and the calls it makes to the
  functions of \<open>props.actions\<close>, in order, each with its argument list. What the called
  function does is the caller's business and not part of the component. Calling a
  value that is not a function throws before anything is invoked.
\<close>

datatype action = RemoveDevLogs | UpdateDevLogging

datatype call = Call action "jsval list"

record 's outcome =
  thrown :: "error option"
  this_after :: "'s Debug"
  invoked :: "call list"

definition invoke :: "action \<Rightarrow> jsval \<Rightarrow> jsval list \<Rightarrow> 's Debug \<Rightarrow> 's outcome" where
  "invoke name f args this =
     (if is_func f
      then \<lparr>thrown = None, this_after = this, invoked = [Call name args]\<rparr>
      else \<lparr>thrown = Some TypeError, this_after = this, invoked = []\<rparr>)"

definition clear :: "'s Debug \<Rightarrow> 's outcome" where
  "clear this = invoke RemoveDevLogs (removeDevLogs (actions (props this))) [] this"

definition toggle :: "'s Debug \<Rightarrow> 's outcome" where
  "toggle this =
     invoke UpdateDevLogging (updateDevLogging (actions (props this)))
       [js_not (logging (statusDebug (props this)))] this"

text \<open>A click on an element runs the method its \<open>onClick\<close> holds.\<close>

fun activate :: "handler \<Rightarrow> 's Debug \<Rightarrow> 's outcome" where
  "activate Toggle this = toggle this"
| "activate Clear this = clear this"

text \<open>
  A render pass as seen from outside: \<open>render\<close> assigns nothing and calls no
  property of \<open>props\<close>.
\<close>

definition render_pass :: "'s Debug \<Rightarrow> 's outcome" where
  "render_pass this =
     \<lparr>thrown = (case render this of Inl e \<Rightarrow> Some e | Inr tree \<Rightarrow> None),
      this_after = this, invoked = []\<rparr>"

text \<open>
  Several clicks in a row with no new props in between: each handler runs on the
  instance the previous one left; the calls are collected in order.
\<close>

fun clicks :: "handler list \<Rightarrow> 's Debug \<Rightarrow> call list" where
  "clicks [] this = []"
| "clicks (h # hs) this =
     (let out = activate h this in invoked out @ clicks hs (this_after out))"

subsection \<open>The methods as programs on the instance\<close>

text \<open>
  The definitions above give what each method computes and which calls a handler
  makes. Here the same method bodies are run step by step on an instance whose
  \<open>this.state\<close> is a JavaScript value. A step takes the instance and gives back the
  value it returns or the error it throws, the instance it leaves, and the calls it
  made to functions of \<open>props.actions\<close>; a step is free to read any part of the
  instance, to change it and to call. What a function of \<open>props.actions\<close> does when
  called is not in the source: it is a parameter, which gets the instance and may
  return, throw, and leave the instance changed in any way.
\<close>

type_synonym 'a exec = "jsval Debug \<Rightarrow> (error + 'a) \<times> jsval Debug \<times> call list"

type_synonym callee = "action \<Rightarrow> jsval list \<Rightarrow> jsval Debug \<Rightarrow> (error + jsval) \<times> jsval Debug"

definition exec_return :: "'a \<Rightarrow> 'a exec" where
  "exec_return v this = (Inr v, this, [])"

definition exec_throw :: "error \<Rightarrow> 'a exec" where
  "exec_throw e this = (Inl e, this, [])"

text \<open>Sequencing: the second step runs on what the first left, unless the first threw.\<close>

definition exec_then :: "'a exec \<Rightarrow> ('a \<Rightarrow> 'b exec) \<Rightarrow> 'b exec" where
  "exec_then m f this =
     (case m this of
        (Inl e, this', cs) \<Rightarrow> (Inl e, this', cs)
      | (Inr v, this', cs) \<Rightarrow>
          (case f v this' of (r, this'', cs') \<Rightarrow> (r, this'', cs @ cs')))"

text \<open>The read \<open>this.props\<close>.\<close>

definition this_props :: "props exec" where
  "this_props this = (Inr (props this), this, [])"

text \<open>
  The call \<open>f(args)\<close> of the function held by a property of \<open>props.actions\<close>: a value
  that is not a function throws with nothing called; otherwise the call is recorded
  and the callee decides the result and the instance.
\<close>

definition exec_call :: "callee \<Rightarrow> action \<Rightarrow> jsval \<Rightarrow> jsval list \<Rightarrow> jsval exec" where
  "exec_call ext name f args this =
     (if is_func f
      then (case ext name args this of (r, this') \<Rightarrow> (r, this', [Call name args]))
      else (Inl TypeError, this, []))"

text \<open>\<open>v.map(callback)\<close> with a callback that is itself a step, run on each element in order.\<close>

fun exec_each :: "(jsval \<Rightarrow> nat \<Rightarrow> 'a exec) \<Rightarrow> nat \<Rightarrow> jsval list \<Rightarrow> 'a list exec" where
  "exec_each f idx [] = exec_return []"
| "exec_each f idx (x # xs) =
     exec_then (f x idx) (\<lambda>y.
     exec_then (exec_each f (Suc idx) xs) (\<lambda>ys.
     exec_return (y # ys)))"

fun exec_array_map :: "(jsval \<Rightarrow> nat \<Rightarrow> 'a exec) \<Rightarrow> jsval \<Rightarrow> 'a list exec" where
  "exec_array_map f (JArr xs) = exec_each f 0 xs"
| "exec_array_map f JUndefined = exec_throw TypeError"
| "exec_array_map f JNull = exec_throw TypeError"
| "exec_array_map f (JBool b) = exec_throw TypeError"
| "exec_array_map f (JNum n) = exec_throw TypeError"
| "exec_array_map f JNaN = exec_throw TypeError"
| "exec_array_map f (JStr s) = exec_throw TypeError"
| "exec_array_map f (JFun g) = exec_throw TypeError"

definition renderLogs_exec :: "vnode list exec" where
  "renderLogs_exec =
     exec_then this_props (\<lambda>p.
     exec_array_map
       (\<lambda>log idx. exec_return (Elem Pre [ClassName Styles_log, Key idx] [Expr log]))
       (logs (statusDebug p)))"

definition renderActions_exec :: "vnode exec" where
  "renderActions_exec =
     exec_then this_props (\<lambda>p.
     let toggleButton =
           (if truthy (logging (statusDebug p))
            then Elem AvPause [] []
            else Elem AvPlay [] [])
     in exec_return
          (Elem Div [ClassName Styles_actions]
             [Elem A [OnClick Toggle] [toggleButton],
              Elem A [OnClick Clear] [Elem AvReplay [] []]]))"

definition render_exec :: "vnode exec" where
  "render_exec =
     exec_then renderActions_exec (\<lambda>acts.
     exec_then this_props (\<lambda>p.
     let sub = js_or (levels (statusDebug p)) (JStr ''-'')
     in exec_then renderLogs_exec (\<lambda>ls.
        exec_return
          (Elem Container []
             [Elem ContainerTitle [Title ''Node Logs''] [],
              acts,
              Elem H2 [ClassName Styles_subheader] [Expr sub],
              Elem Div [ClassName Styles_logs] ls]))))"

text \<open>
  The handlers: the callee expression is read first, then the argument, then the
  call is made; the arrow function's block returns \<open>undefined\<close>.
\<close>

definition clear_exec :: "callee \<Rightarrow> jsval exec" where
  "clear_exec ext =
     exec_then this_props (\<lambda>p.
     exec_then (exec_call ext RemoveDevLogs (removeDevLogs (actions p)) []) (\<lambda>r.
     exec_return JUndefined))"

definition toggle_exec :: "callee \<Rightarrow> jsval exec" where
  "toggle_exec ext =
     exec_then this_props (\<lambda>p.
     exec_then this_props (\<lambda>q.
     exec_then
       (exec_call ext UpdateDevLogging (updateDevLogging (actions p))
          [js_not (logging (statusDebug q))]) (\<lambda>r.
     exec_return JUndefined)))"

subsection \<open>Reading a rendered tree\<close>

fun subtrees :: "vnode \<Rightarrow> vnode list" where
  "subtrees (Elem t as cs) = Elem t as cs # concat (map subtrees cs)"
| "subtrees (Expr v) = [Expr v]"

fun children :: "vnode \<Rightarrow> vnode list" where
  "children (Elem t as cs) = cs"
| "children (Expr v) = []"

fun has_attr :: "attr \<Rightarrow> vnode \<Rightarrow> bool" where
  "has_attr a (Elem t as cs) = (a \<in> set as)"
| "has_attr a (Expr v) = False"

fun has_tag :: "tag \<Rightarrow> vnode \<Rightarrow> bool" where
  "has_tag t' (Elem t as cs) = (t = t')"
| "has_tag t' (Expr v) = False"

text \<open>All elements of a tree with a given attribute or tag, in document order.\<close>

definition elements_by_attr :: "attr \<Rightarrow> vnode \<Rightarrow> vnode list" where
  "elements_by_attr a tree = filter (has_attr a) (subtrees tree)"

definition elements_by_tag :: "tag \<Rightarrow> vnode \<Rightarrow> vnode list" where
  "elements_by_tag t tree = filter (has_tag t) (subtrees tree)"

text \<open>The two scenarios of the specification.\<close>

definition scenario_streaming :: "unit Debug" where
  "scenario_streaming =
     \<lparr>props = \<lparr>actions = \<lparr>removeDevLogs = JFun 0, updateDevLogging = JFun 1\<rparr>,
               statusDebug = \<lparr>levels = JStr ''INFO,ERROR'', logging = JBool True,
                               logs = JArr [JStr ''a'', JStr ''b'']\<rparr>\<rparr>,
      state = ()\<rparr>"

definition scenario_idle :: "unit Debug" where
  "scenario_idle =
     \<lparr>props = \<lparr>actions = \<lparr>removeDevLogs = JFun 0, updateDevLogging = JFun 1\<rparr>,
               statusDebug = \<lparr>levels = JStr [], logging = JBool False, logs = JArr []\<rparr>\<rparr>,
      state = ()\<rparr>"

text \<open>
  An instance of the first scenario with nothing in \<open>this.state\<close>, one with something
  in it, and two callees: one that does nothing, one that rewrites \<open>statusDebug\<close> in
  place and puts a value in \<open>this.state\<close>.
\<close>

definition instance_streaming :: "jsval \<Rightarrow> jsval Debug" where
  "instance_streaming s = \<lparr>props = props scenario_streaming, state = s\<rparr>"

definition callee_idle :: callee where
  "callee_idle name args this = (Inr JUndefined, this)"

definition callee_rewriting :: callee where
  "callee_rewriting name args this =
     (Inr JUndefined,
      \<lparr>props = (props this)\<lparr>statusDebug :=
                 \<lparr>levels = JStr [], logging = JBool False, logs = JArr []\<rparr>\<rparr>,
       state = JNum 1\<rparr>)"

section \<open>Properties\<close>

subsection \<open>Helper facts\<close>

lemma renderLogs_array:
  "logs (statusDebug (props this)) = JArr L \<Longrightarrow>
   renderLogs this =
     Inr (map (\<lambda>(idx, l). Elem Pre [ClassName Styles_log, Key idx] [Expr l]) (enumerate 0 L))"
  by (simp add: renderLogs_def)

lemma render_array:
  "logs (statusDebug (props this)) = JArr L \<Longrightarrow>
   render this =
     Inr (Elem Container []
           [Elem ContainerTitle [Title ''Node Logs''] [],
            renderActions this,
            Elem H2 [ClassName Styles_subheader]
              [Expr (js_or (levels (statusDebug (props this))) (JStr ''-''))],
            Elem Div [ClassName Styles_logs]
              (map (\<lambda>(idx, l). Elem Pre [ClassName Styles_log, Key idx] [Expr l])
                 (enumerate 0 L))])"
  by (simp add: render_def renderLogs_array)

lemma render_Inr_array:
  "render this = Inr tree \<Longrightarrow> \<exists>L. logs (statusDebug (props this)) = JArr L"
  by (cases "logs (statusDebug (props this))") (simp_all add: render_def renderLogs_def)

text \<open>Without an array in \<open>logs\<close> the render throws, and a handler throws without a function.\<close>

lemma render_throws_without_array:
  "\<not> (\<exists>L. logs (statusDebug (props this)) = JArr L) \<Longrightarrow> render this = Inl TypeError"
  by (cases "logs (statusDebug (props this))") (simp_all add: render_def renderLogs_def)

lemma invoke_throws_without_function:
  "\<not> is_func f \<Longrightarrow> invoke name f args this =
     \<lparr>thrown = Some TypeError, this_after = this, invoked = []\<rparr>"
  by (simp add: invoke_def)

lemma render_tree:
  assumes "render this = Inr tree"
  obtains L where "logs (statusDebug (props this)) = JArr L"
    and "tree = Elem Container []
           [Elem ContainerTitle [Title ''Node Logs''] [],
            renderActions this,
            Elem H2 [ClassName Styles_subheader]
              [Expr (js_or (levels (statusDebug (props this))) (JStr ''-''))],
            Elem Div [ClassName Styles_logs]
              (map (\<lambda>(idx, l). Elem Pre [ClassName Styles_log, Key idx] [Expr l])
                 (enumerate 0 L))]"
proof -
  from assms obtain L where L: "logs (statusDebug (props this)) = JArr L"
    using render_Inr_array by blast
  with render_array[OF L] assms that show thesis by simp
qed

text \<open>
  The subtrees of the log blocks, in the form the simplifier gives them: a block and
  its text carry no other tag than \<open>pre\<close> and no attribute but the class and the key.
\<close>

lemma filter_none_blocks:
  assumes "\<And>idx l. \<not> P (Elem Pre [ClassName Styles_log, Key idx] [Expr l])"
    and "\<And>l. \<not> P (Expr l)"
  shows "filter P (concat (map (subtrees \<circ>
      (\<lambda>(idx, l). Elem Pre [ClassName Styles_log, Key idx] [Expr l])) (enumerate n L))) = []"
  using assms by (induction L arbitrary: n) simp_all

lemma filter_attr_blocks:
  "a \<noteq> ClassName Styles_log \<Longrightarrow> \<forall>i. a \<noteq> Key i \<Longrightarrow>
   filter (has_attr a) (concat (map (subtrees \<circ>
      (\<lambda>(idx, l). Elem Pre [ClassName Styles_log, Key idx] [Expr l])) (enumerate n L))) = []"
  by (rule filter_none_blocks) auto

lemma filter_tag_blocks:
  "t \<noteq> Pre \<Longrightarrow>
   filter (has_tag t) (concat (map (subtrees \<circ>
      (\<lambda>(idx, l). Elem Pre [ClassName Styles_log, Key idx] [Expr l])) (enumerate n L))) = []"
  by (rule filter_none_blocks) auto

lemma filter_pre_blocks:
  "filter (has_tag Pre) (concat (map (subtrees \<circ>
      (\<lambda>(idx, l). Elem Pre [ClassName Styles_log, Key idx] [Expr l])) (enumerate n L))) =
   map (\<lambda>(idx, l). Elem Pre [ClassName Styles_log, Key idx] [Expr l]) (enumerate n L)"
  by (induction L arbitrary: n) simp_all

lemma children_blocks:
  "map children
     (map (\<lambda>(idx, l). Elem Pre [ClassName Styles_log, Key idx] [Expr l]) (enumerate n L)) =
   map (\<lambda>l. [Expr l]) L"
  by (induction L arbitrary: n) simp_all

text \<open>
  Run step by step, the rendering methods return what the definitions of the values
  give, leave the instance as it was and call nothing. The proofs go through every
  step of the bodies.
\<close>

lemma exec_each_return:
  "exec_each (\<lambda>x idx. exec_return (g x idx)) n xs this =
     (Inr (map (\<lambda>(idx, x). g x idx) (enumerate n xs)), this, [])"
  by (induction xs arbitrary: n) (simp_all add: exec_then_def exec_return_def)

lemma renderLogs_exec_eq: "renderLogs_exec this = (renderLogs this, this, [])"
  by (cases "logs (statusDebug (props this))")
     (simp_all add: renderLogs_exec_def renderLogs_def exec_then_def this_props_def
        exec_each_return exec_throw_def)

lemma renderActions_exec_eq: "renderActions_exec this = (Inr (renderActions this), this, [])"
  by (simp add: renderActions_exec_def renderActions_def exec_then_def this_props_def
        exec_return_def Let_def)

lemma render_exec_eq: "render_exec this = (render this, this, [])"
  by (cases "renderLogs this")
     (simp_all add: render_exec_def render_def exec_then_def this_props_def
        renderLogs_exec_eq renderActions_exec_eq exec_return_def Let_def)

lemma toggle_exec_eq:
  "toggle_exec ext this =
     (if is_func (updateDevLogging (actions (props this)))
      then (case ext UpdateDevLogging [js_not (logging (statusDebug (props this)))] this of
              (Inl e, this') \<Rightarrow>
                (Inl e, this', [Call UpdateDevLogging [js_not (logging (statusDebug (props this)))]])
            | (Inr v, this') \<Rightarrow>
                (Inr JUndefined, this',
                 [Call UpdateDevLogging [js_not (logging (statusDebug (props this)))]]))
      else (Inl TypeError, this, []))"
  by (simp add: toggle_exec_def exec_then_def this_props_def exec_call_def exec_return_def
        split: prod.splits sum.splits)

lemma clear_exec_eq:
  "clear_exec ext this =
     (if is_func (removeDevLogs (actions (props this)))
      then (case ext RemoveDevLogs [] this of
              (Inl e, this') \<Rightarrow> (Inl e, this', [Call RemoveDevLogs []])
            | (Inr v, this') \<Rightarrow> (Inr JUndefined, this', [Call RemoveDevLogs []]))
      else (Inl TypeError, this, []))"
  by (simp add: clear_exec_def exec_then_def this_props_def exec_call_def exec_return_def
        split: prod.splits sum.splits)

lemma render_scenario_streaming:
  "render scenario_streaming =
     Inr (Elem Container []
           [Elem ContainerTitle [Title ''Node Logs''] [],
            Elem Div [ClassName Styles_actions]
              [Elem A [OnClick Toggle] [Elem AvPause [] []],
               Elem A [OnClick Clear] [Elem AvReplay [] []]],
            Elem H2 [ClassName Styles_subheader] [Expr (JStr ''INFO,ERROR'')],
            Elem Div [ClassName Styles_logs]
              [Elem Pre [ClassName Styles_log, Key 0] [Expr (JStr ''a'')],
               Elem Pre [ClassName Styles_log, Key 1] [Expr (JStr ''b'')]]])"
  by (simp add: render_def renderLogs_def renderActions_def js_or_def scenario_streaming_def)

lemma render_scenario_idle:
  "render scenario_idle =
     Inr (Elem Container []
           [Elem ContainerTitle [Title ''Node Logs''] [],
            Elem Div [ClassName Styles_actions]
              [Elem A [OnClick Toggle] [Elem AvPlay [] []],
               Elem A [OnClick Clear] [Elem AvReplay [] []]],
            Elem H2 [ClassName Styles_subheader] [Expr (JStr ''-'')],
            Elem Div [ClassName Styles_logs] []])"
  by (simp add: render_def renderLogs_def renderActions_def js_or_def scenario_idle_def)

subsection \<open>The toggle glyph\<close>

text \<open>
  Claim C1. Whenever a render returns a tree and \<open>statusDebug.logging\<close> is the boolean
  \<open>b\<close>, the tree has exactly one element whose \<open>onClick\<close> is the toggle handler, and its
  only child is the pause glyph when \<open>b\<close> is true and the play glyph when \<open>b\<close> is false.
\<close>

theorem toggle_glyph:
  assumes "render this = Inr tree"
    and "logging (statusDebug (props this)) = JBool b"
  shows "map children (elements_by_attr (OnClick Toggle) tree) =
         [[Elem (if b then AvPause else AvPlay) [] []]]"
proof -
  from assms(1) obtain L where t: "tree = Elem Container []
           [Elem ContainerTitle [Title ''Node Logs''] [],
            renderActions this,
            Elem H2 [ClassName Styles_subheader]
              [Expr (js_or (levels (statusDebug (props this))) (JStr ''-''))],
            Elem Div [ClassName Styles_logs]
              (map (\<lambda>(idx, l). Elem Pre [ClassName Styles_log, Key idx] [Expr l])
                 (enumerate 0 L))]"
    by (rule render_tree)
  show ?thesis
    unfolding t elements_by_attr_def
    by (simp add: renderActions_def assms(2) filter_attr_blocks del: filter_concat)
qed

theorem toggle_glyph_witness:
  "(\<exists>tree. render scenario_streaming = Inr tree \<and>
      logging (statusDebug (props scenario_streaming)) = JBool True \<and>
      map children (elements_by_attr (OnClick Toggle) tree) = [[Elem AvPause [] []]]) \<and>
   (\<exists>tree. render scenario_idle = Inr tree \<and>
      logging (statusDebug (props scenario_idle)) = JBool False \<and>
      map children (elements_by_attr (OnClick Toggle) tree) = [[Elem AvPlay [] []]])"
proof -
  have l1: "logging (statusDebug (props scenario_streaming)) = JBool True"
    by (simp add: scenario_streaming_def)
  have l2: "logging (statusDebug (props scenario_idle)) = JBool False"
    by (simp add: scenario_idle_def)
  from toggle_glyph[OF render_scenario_streaming l1] toggle_glyph[OF render_scenario_idle l2]
    l1 l2 render_scenario_streaming render_scenario_idle
  show ?thesis by simp
qed

subsection \<open>The log list\<close>

text \<open>
  Claim C2. When \<open>statusDebug.logs\<close> is an array \<open>L\<close>, the render returns a tree in which
  the children of the log list (the element of class \<open>styles.logs\<close>) are exactly the
  \<open>pre\<close> elements of the tree, there are as many of them as \<open>L\<close> has lines, and the
  children of the blocks, in order, are the lines of \<open>L\<close>, each as it is.
\<close>

theorem log_blocks_verbatim:
  assumes "logs (statusDebug (props this)) = JArr L"
  shows "\<exists>tree. render this = Inr tree \<and>
     concat (map children (elements_by_attr (ClassName Styles_logs) tree)) =
       elements_by_tag Pre tree \<and>
     length (elements_by_tag Pre tree) = length L \<and>
     map children (elements_by_tag Pre tree) = map (\<lambda>l. [Expr l]) L"
proof -
  let ?bs = "map (\<lambda>(idx, l). Elem Pre [ClassName Styles_log, Key idx] [Expr l]) (enumerate 0 L)"
  let ?tree = "Elem Container []
           [Elem ContainerTitle [Title ''Node Logs''] [],
            renderActions this,
            Elem H2 [ClassName Styles_subheader]
              [Expr (js_or (levels (statusDebug (props this))) (JStr ''-''))],
            Elem Div [ClassName Styles_logs] ?bs]"
  have r: "render this = Inr ?tree"
    by (rule render_array[OF assms])
  have pre: "elements_by_tag Pre ?tree = ?bs"
    unfolding elements_by_tag_def
    by (simp add: renderActions_def filter_pre_blocks del: filter_concat)
  have lst: "concat (map children (elements_by_attr (ClassName Styles_logs) ?tree)) = ?bs"
    unfolding elements_by_attr_def
    by (simp add: renderActions_def filter_attr_blocks del: filter_concat)
  have "map children ?bs = map (\<lambda>l. [Expr l]) L"
    by (rule children_blocks)
  with r pre lst show ?thesis by simp
qed

theorem log_blocks_verbatim_witness:
  "logs (statusDebug (props scenario_streaming)) = JArr [JStr ''a'', JStr ''b''] \<and>
   (\<exists>tree. render scenario_streaming = Inr tree \<and>
      length (elements_by_tag Pre tree) = 2 \<and>
      map children (elements_by_tag Pre tree) = [[Expr (JStr ''a'')], [Expr (JStr ''b'')]])"
proof -
  have l: "logs (statusDebug (props scenario_streaming)) = JArr [JStr ''a'', JStr ''b'']"
    by (simp add: scenario_streaming_def)
  from log_blocks_verbatim[OF l] l show ?thesis
    by (auto simp add: numeral_2_eq_2)
qed

subsection \<open>The subheader\<close>

text \<open>
  Claim C3. Whenever a render returns a tree, the tree has exactly one \<open>h2\<close> element and
  its only child is the string \<open>"-"\<close> when \<open>statusDebug.levels\<close> is the empty string or any
  other falsy value, and is the value of \<open>statusDebug.levels\<close> itself otherwise.
\<close>

theorem subheader_dash_or_levels:
  assumes "render this = Inr tree"
  shows "(levels (statusDebug (props this)) = JStr [] \<longrightarrow>
            map children (elements_by_tag H2 tree) = [[Expr (JStr ''-'')]]) \<and>
         (\<not> truthy (levels (statusDebug (props this))) \<longrightarrow>
            map children (elements_by_tag H2 tree) = [[Expr (JStr ''-'')]]) \<and>
         (truthy (levels (statusDebug (props this))) \<longrightarrow>
            map children (elements_by_tag H2 tree) =
              [[Expr (levels (statusDebug (props this)))]])"
proof -
  from assms(1) obtain L where t: "tree = Elem Container []
           [Elem ContainerTitle [Title ''Node Logs''] [],
            renderActions this,
            Elem H2 [ClassName Styles_subheader]
              [Expr (js_or (levels (statusDebug (props this))) (JStr ''-''))],
            Elem Div [ClassName Styles_logs]
              (map (\<lambda>(idx, l). Elem Pre [ClassName Styles_log, Key idx] [Expr l])
                 (enumerate 0 L))]"
    by (rule render_tree)
  have "map children (elements_by_tag H2 tree) =
        [[Expr (js_or (levels (statusDebug (props this))) (JStr ''-''))]]"
    unfolding t elements_by_tag_def
    by (simp add: renderActions_def filter_tag_blocks del: filter_concat)
  then show ?thesis
    by (auto simp add: js_or_def)
qed

theorem subheader_dash_or_levels_witness:
  "(\<exists>tree. render scenario_idle = Inr tree \<and>
      levels (statusDebug (props scenario_idle)) = JStr [] \<and>
      map children (elements_by_tag H2 tree) = [[Expr (JStr ''-'')]]) \<and>
   (\<exists>tree. render scenario_streaming = Inr tree \<and>
      truthy (levels (statusDebug (props scenario_streaming))) \<and>
      map children (elements_by_tag H2 tree) = [[Expr (JStr ''INFO,ERROR'')]])"
proof -
  have l1: "levels (statusDebug (props scenario_idle)) = JStr []"
    by (simp add: scenario_idle_def)
  have l2: "levels (statusDebug (props scenario_streaming)) = JStr ''INFO,ERROR''"
    by (simp add: scenario_streaming_def)
  from subheader_dash_or_levels[OF render_scenario_idle]
    subheader_dash_or_levels[OF render_scenario_streaming]
    l1 l2 render_scenario_idle render_scenario_streaming
  show ?thesis by simp
qed

subsection \<open>The clear glyph\<close>

text \<open>
  Claim C9. Whenever a render returns a tree, whatever \<open>logging\<close>, \<open>levels\<close> and \<open>logs\<close>
  hold, the actions row (the element of class \<open>styles.actions\<close>) has exactly one child
  whose \<open>onClick\<close> is the clear handler, that child is the only such element of the
  tree, and its only child is the replay glyph.
\<close>

theorem clear_glyph:
  assumes "render this = Inr tree"
  shows "filter (has_attr (OnClick Clear))
           (concat (map children (elements_by_attr (ClassName Styles_actions) tree))) =
           elements_by_attr (OnClick Clear) tree \<and>
         map children (elements_by_attr (OnClick Clear) tree) = [[Elem AvReplay [] []]]"
proof -
  from assms(1) obtain L where t: "tree = Elem Container []
           [Elem ContainerTitle [Title ''Node Logs''] [],
            renderActions this,
            Elem H2 [ClassName Styles_subheader]
              [Expr (js_or (levels (statusDebug (props this))) (JStr ''-''))],
            Elem Div [ClassName Styles_logs]
              (map (\<lambda>(idx, l). Elem Pre [ClassName Styles_log, Key idx] [Expr l])
                 (enumerate 0 L))]"
    by (rule render_tree)
  have c: "elements_by_attr (OnClick Clear) tree = [Elem A [OnClick Clear] [Elem AvReplay [] []]]"
    unfolding t elements_by_attr_def
    by (simp add: renderActions_def filter_attr_blocks del: filter_concat)
  have r: "concat (map children (elements_by_attr (ClassName Styles_actions) tree)) =
           [Elem A [OnClick Toggle]
              [if truthy (logging (statusDebug (props this)))
               then Elem AvPause [] [] else Elem AvPlay [] []],
            Elem A [OnClick Clear] [Elem AvReplay [] []]]"
    unfolding t elements_by_attr_def
    by (simp add: renderActions_def filter_attr_blocks del: filter_concat)
  show ?thesis
    unfolding c r by simp
qed

theorem clear_glyph_witness:
  "(\<exists>tree. render scenario_streaming = Inr tree \<and>
      map children (elements_by_attr (OnClick Clear) tree) = [[Elem AvReplay [] []]]) \<and>
   (\<exists>tree. render scenario_idle = Inr tree \<and>
      map children (elements_by_attr (OnClick Clear) tree) = [[Elem AvReplay [] []]])"
  using clear_glyph[OF render_scenario_streaming] clear_glyph[OF render_scenario_idle]
    render_scenario_streaming render_scenario_idle
  by simp

subsection \<open>The handlers\<close>

text \<open>
  Claim C4. When \<open>actions.updateDevLogging\<close> is a function and \<open>statusDebug.logging\<close> is
  the boolean \<open>b\<close>, a click on the toggle control throws nothing and makes exactly one
  call: \<open>updateDevLogging\<close> with the single argument \<open>\<not> b\<close>.
\<close>

theorem toggle_calls_updateDevLogging_once:
  assumes "is_func (updateDevLogging (actions (props this)))"
    and "logging (statusDebug (props this)) = JBool b"
  shows "thrown (activate Toggle this) = None \<and>
         invoked (activate Toggle this) = [Call UpdateDevLogging [JBool (\<not> b)]]"
  using assms by (simp add: toggle_def invoke_def js_not_def)

theorem toggle_calls_updateDevLogging_once_witness:
  "is_func (updateDevLogging (actions (props scenario_streaming))) \<and>
   logging (statusDebug (props scenario_streaming)) = JBool True \<and>
   thrown (activate Toggle scenario_streaming) = None \<and>
   invoked (activate Toggle scenario_streaming) = [Call UpdateDevLogging [JBool False]]"
proof -
  have f: "is_func (updateDevLogging (actions (props scenario_streaming)))"
    by (simp add: scenario_streaming_def)
  have l: "logging (statusDebug (props scenario_streaming)) = JBool True"
    by (simp add: scenario_streaming_def)
  from toggle_calls_updateDevLogging_once[OF f l] f l show ?thesis by simp
qed

text \<open>
  Claim C5. When \<open>actions.removeDevLogs\<close> is a function, a click on the clear control
  throws nothing and makes exactly one call, \<open>removeDevLogs\<close> with an empty argument
  list, whatever \<open>statusDebug\<close> holds.
\<close>

theorem clear_calls_removeDevLogs_once:
  assumes "is_func (removeDevLogs (actions (props this)))"
  shows "thrown (activate Clear this) = None \<and>
         invoked (activate Clear this) = [Call RemoveDevLogs []]"
  using assms by (simp add: clear_def invoke_def)

theorem clear_calls_removeDevLogs_once_witness:
  "is_func (removeDevLogs (actions (props scenario_idle))) \<and>
   thrown (activate Clear scenario_idle) = None \<and>
   invoked (activate Clear scenario_idle) = [Call RemoveDevLogs []]"
proof -
  have f: "is_func (removeDevLogs (actions (props scenario_idle)))"
    by (simp add: scenario_idle_def)
  from clear_calls_removeDevLogs_once[OF f] f show ?thesis by simp
qed

text \<open>
  Claim C10. When \<open>actions.updateDevLogging\<close> is a function and \<open>statusDebug.logging\<close> is
  the boolean \<open>b\<close>, any number \<open>n\<close> of clicks on the toggle control with no new props in
  between makes \<open>n\<close> calls of \<open>updateDevLogging\<close>, every one with the argument \<open>\<not> b\<close>.
\<close>

theorem toggle_repeated_same_argument:
  assumes "is_func (updateDevLogging (actions (props this)))"
    and "logging (statusDebug (props this)) = JBool b"
  shows "clicks (replicate n Toggle) this = replicate n (Call UpdateDevLogging [JBool (\<not> b)])"
proof (induction n)
  case 0
  show ?case by simp
next
  case (Suc n)
  have "invoked (toggle this) = [Call UpdateDevLogging [JBool (\<not> b)]]"
    using assms by (simp add: toggle_def invoke_def js_not_def)
  moreover have "this_after (toggle this) = this"
    by (simp add: toggle_def invoke_def)
  ultimately show ?case
    using Suc.IH by (simp add: Let_def)
qed

theorem toggle_repeated_same_argument_witness:
  "is_func (updateDevLogging (actions (props scenario_idle))) \<and>
   logging (statusDebug (props scenario_idle)) = JBool False \<and>
   clicks [Toggle, Toggle, Toggle] scenario_idle =
     [Call UpdateDevLogging [JBool True], Call UpdateDevLogging [JBool True],
      Call UpdateDevLogging [JBool True]]"
proof -
  have f: "is_func (updateDevLogging (actions (props scenario_idle)))"
    by (simp add: scenario_idle_def)
  have l: "logging (statusDebug (props scenario_idle)) = JBool False"
    by (simp add: scenario_idle_def)
  from toggle_repeated_same_argument[OF f l, of "Suc (Suc (Suc 0))"] f l
  show ?thesis by simp
qed

subsection \<open>Purity and frame\<close>

text \<open>
  Claim C6. Run step by step on an instance, \<open>render\<close> returns what the function
  \<open>render\<close> of the props alone gives; so two instances with equal props return the
  same tree (or the same error) whatever their \<open>this.state\<close> holds. The run leaves the
  instance as it was, so a second render of the same instance returns what the first
  did.
\<close>

theorem render_function_of_props:
  "fst (render_exec c1) = render \<lparr>props = props c1, state = ()\<rparr> \<and>
   (props c1 = props c2 \<longrightarrow> fst (render_exec c1) = fst (render_exec c2)) \<and>
   fst (snd (render_exec c1)) = c1 \<and>
   fst (render_exec (fst (snd (render_exec c1)))) = fst (render_exec c1)"
  by (simp add: render_exec_eq render_def renderLogs_def renderActions_def)

theorem render_function_of_props_witness:
  "props (instance_streaming JUndefined) = props (instance_streaming (JNum 7)) \<and>
   instance_streaming JUndefined \<noteq> instance_streaming (JNum 7) \<and>
   fst (render_exec (instance_streaming JUndefined)) =
     fst (render_exec (instance_streaming (JNum 7))) \<and>
   fst (render_exec (instance_streaming JUndefined)) = render scenario_streaming \<and>
   fst (snd (render_exec (instance_streaming JUndefined))) = instance_streaming JUndefined"
proof -
  have p: "props (instance_streaming JUndefined) = props (instance_streaming (JNum 7))"
    by (simp add: instance_streaming_def)
  have d: "instance_streaming JUndefined \<noteq> instance_streaming (JNum 7)"
    by (simp add: instance_streaming_def)
  have u: "\<lparr>props = props (instance_streaming JUndefined), state = ()\<rparr> = scenario_streaming"
    by (simp add: instance_streaming_def scenario_streaming_def)
  note t = render_function_of_props[of "instance_streaming JUndefined" "instance_streaming (JNum 7)"]
  have a1: "fst (render_exec (instance_streaming JUndefined)) = render scenario_streaming"
    using t unfolding u by blast
  have a2: "fst (render_exec (instance_streaming JUndefined)) =
            fst (render_exec (instance_streaming (JNum 7)))"
    using t p by blast
  have a3: "fst (snd (render_exec (instance_streaming JUndefined))) = instance_streaming JUndefined"
    using t by blast
  from p d a1 a2 a3 show ?thesis by blast
qed

text \<open>
  Claim C7. Run step by step, \<open>render\<close> leaves the instance as it was and calls
  nothing. A click on the toggle control makes the one call of \<open>updateDevLogging\<close> when
  that is a function and no call otherwise, a click on the clear control the one
  call of \<open>removeDevLogs\<close> or none; the instance after the click is the instance as
  that one call left it, and the instance as it was when nothing was called. So
  whenever the called function leaves \<open>statusDebug\<close> alone, \<open>levels\<close>, \<open>logging\<close> and
  \<open>logs\<close> are after the click what they were before.
\<close>

theorem component_frame:
  "snd (render_exec this) = (this, []) \<and>
   snd (toggle_exec ext this) =
     (if is_func (updateDevLogging (actions (props this)))
      then (snd (ext UpdateDevLogging [js_not (logging (statusDebug (props this)))] this),
            [Call UpdateDevLogging [js_not (logging (statusDebug (props this)))]])
      else (this, [])) \<and>
   snd (clear_exec ext this) =
     (if is_func (removeDevLogs (actions (props this)))
      then (snd (ext RemoveDevLogs [] this), [Call RemoveDevLogs []])
      else (this, [])) \<and>
   (statusDebug (props (snd (ext UpdateDevLogging
        [js_not (logging (statusDebug (props this)))] this))) = statusDebug (props this) \<longrightarrow>
    statusDebug (props (fst (snd (toggle_exec ext this)))) = statusDebug (props this)) \<and>
   (statusDebug (props (snd (ext RemoveDevLogs [] this))) = statusDebug (props this) \<longrightarrow>
    statusDebug (props (fst (snd (clear_exec ext this)))) = statusDebug (props this))"
  by (simp add: render_exec_eq toggle_exec_eq clear_exec_eq split: prod.splits sum.splits)

theorem component_frame_witness:
  "snd (render_exec (instance_streaming JUndefined)) = (instance_streaming JUndefined, []) \<and>
   snd (toggle_exec callee_rewriting (instance_streaming JUndefined)) =
     (snd (callee_rewriting UpdateDevLogging [JBool False] (instance_streaming JUndefined)),
      [Call UpdateDevLogging [JBool False]]) \<and>
   statusDebug (props (snd (callee_idle UpdateDevLogging [JBool False]
      (instance_streaming JUndefined)))) = statusDebug (props (instance_streaming JUndefined)) \<and>
   statusDebug (props (fst (snd (toggle_exec callee_idle (instance_streaming JUndefined))))) =
     statusDebug (props (instance_streaming JUndefined)) \<and>
   statusDebug (props (snd (callee_idle RemoveDevLogs [] (instance_streaming JUndefined)))) =
     statusDebug (props (instance_streaming JUndefined)) \<and>
   snd (clear_exec callee_idle (instance_streaming JUndefined)) =
     (instance_streaming JUndefined, [Call RemoveDevLogs []])"
proof -
  have f: "is_func (updateDevLogging (actions (props (instance_streaming JUndefined))))"
      "is_func (removeDevLogs (actions (props (instance_streaming JUndefined))))"
    by (simp_all add: instance_streaming_def scenario_streaming_def)
  have l: "js_not (logging (statusDebug (props (instance_streaming JUndefined)))) = JBool False"
    by (simp add: instance_streaming_def scenario_streaming_def js_not_def)
  have i: "callee_idle name args (instance_streaming JUndefined) =
           (Inr JUndefined, instance_streaming JUndefined)" for name args
    by (simp add: callee_idle_def)
  from component_frame[of "instance_streaming JUndefined" callee_rewriting]
    component_frame[of "instance_streaming JUndefined" callee_idle] f l i
  show ?thesis by simp
qed

subsection \<open>No error on well-formed props\<close>

text \<open>
  Claim C8. When the props satisfy \<open>propTypes\<close> (both actions functions, \<open>levels\<close> a
  string, \<open>logging\<close> a boolean, \<open>logs\<close> an array of strings), \<open>renderLogs\<close> returns a list
  of elements, \<open>render\<close> returns a tree, and the render pass throws nothing.
\<close>

theorem render_total_on_propTypes:
  assumes "propTypes (props this)"
  shows "(\<exists>ls. renderLogs this = Inr ls) \<and>
         (\<exists>tree. render this = Inr tree) \<and>
         thrown (render_pass this) = None"
proof -
  from assms obtain L where L: "logs (statusDebug (props this)) = JArr L"
    by (cases "logs (statusDebug (props this))") (simp_all add: propTypes_def)
  from renderLogs_array[OF L] render_array[OF L] show ?thesis
    by (simp add: render_pass_def)
qed

theorem render_total_on_propTypes_witness:
  "propTypes (props scenario_streaming) \<and>
   (\<exists>tree. render scenario_streaming = Inr tree) \<and>
   thrown (render_pass scenario_streaming) = None"
proof -
  have w: "propTypes (props scenario_streaming)"
    by (simp add: propTypes_def optional_def scenario_streaming_def)
  from render_total_on_propTypes[OF w] w show ?thesis by simp
qed

end
